theory Spec2Isabelle
  imports Complex_Main "HOL-Library.AList"
begin

section \<open>Values, objects and errors\<close>

text \<open>
  The services work on plain JavaScript objects that are written to and read from JSON
  files. A value is one of the JSON kinds the services build (arrays do not occur in the
  records handled here); a missing property (\<open>undefined\<close>) is a key absent from the
  object. An object is an association list in insertion order with distinct keys, so
  that \<open>{...a, ...b}\<close> is \<^const>\<open>AList.merge\<close> and \<open>const {k, ...rest} = a\<close> is
  \<^const>\<open>AList.delete\<close>. Numbers are exact rationals.
\<close>

datatype jv = JNull | JBool bool | JNum rat | JStr string | JObj "(string \<times> jv) list"

type_synonym obj = "(string \<times> jv) list"

text \<open>
  The error classes of \<open>utils/errors.js\<close> that the modelled code throws, and the plain
  \<open>Error\<close> of the language. \<open>DatabaseError\<close> carries its message and the original error.
\<close>

datatype error =
    Error string
  | NotFoundError string
  | ConflictError string
  | DatabaseError string error

section \<open>The file store (utils/fileStorage.js)\<close>

text \<open>
  A collection is the array a container file holds; a file that does not exist reads as
  the empty array. Every operation is a read-modify-write of the whole array, so each
  function takes the array read and returns its result with the array the file holds
  afterwards. File-system failures are outside the model.
\<close>

type_synonym collection = "obj list"

definition has_id :: "string \<Rightarrow> obj \<Rightarrow> bool" where
  "has_id i item \<longleftrightarrow> map_of item ''id'' = Some (JStr i)"

fun findIndex :: "('a \<Rightarrow> bool) \<Rightarrow> 'a list \<Rightarrow> nat option" where
  "findIndex P [] = None"
| "findIndex P (x # xs) = (if P x then Some 0 else map_option Suc (findIndex P xs))"

definition appendToFile :: "collection \<Rightarrow> obj \<Rightarrow> obj \<times> collection" where
  "appendToFile data item = (item, data @ [item])"

definition updateInFile ::
  "string \<Rightarrow> string \<Rightarrow> collection \<Rightarrow> string \<Rightarrow> obj \<Rightarrow> (error + obj) \<times> collection" where
  "updateInFile filePath now data i updateData =
     (case findIndex (has_id i) data of
        None \<Rightarrow>
          (Inl (DatabaseError (''Failed to update item in file: '' @ filePath)
                              (Error ''Item not found'')), data)
      | Some index \<Rightarrow>
          (let merged = AList.update ''updatedAt'' (JStr now)
                          (AList.merge (data ! index) updateData)
           in (Inr merged, data[index := merged])))"

definition findByIdInFile :: "collection \<Rightarrow> string \<Rightarrow> obj option" where
  "findByIdInFile data i = List.find (has_id i) data"

definition deleteFromFile ::
  "string \<Rightarrow> collection \<Rightarrow> string \<Rightarrow> (error + unit) \<times> collection" where
  "deleteFromFile filePath data i =
     (let filteredData = filter (\<lambda>item. \<not> has_id i item) data
      in if length filteredData = length data
         then (Inl (DatabaseError (''Failed to delete from file: '' @ filePath)
                                  (Error ''Item not found'')), data)
         else (Inr (), filteredData))"


definition transactionsFile :: string where
  "transactionsFile = ''data/transactions.json''"

section \<open>The user service on the file store (services/UserService.js)\<close>

text \<open>
  The data a caller passes to \<open>createUser\<close>: four strings and optional preferences.
  \<open>toLowerCase\<close> is the language's lower-casing, here on the ASCII letters.
\<close>

record userData =
  email :: string
  password :: string
  firstName :: string
  lastName :: string
  preferences :: "obj option"

definition lower_char :: "char \<Rightarrow> char" where
  "lower_char c =
     (case map_of (zip ''ABCDEFGHIJKLMNOPQRSTUVWXYZ'' ''abcdefghijklmnopqrstuvwxyz'') c of
        Some l \<Rightarrow> l | None \<Rightarrow> c)"

definition toLowerCase :: "string \<Rightarrow> string" where
  "toLowerCase s = map lower_char s"

definition defaultPreferences :: obj where
  "defaultPreferences =
     [(''currency'', JStr ''USD''), (''theme'', JStr ''light''),
      (''notifications'', JBool True), (''language'', JStr ''en'')]"

definition has_email :: "string \<Rightarrow> obj \<Rightarrow> bool" where
  "has_email e u \<longleftrightarrow> map_of u ''email'' = Some (JStr e)"

definition getUserByEmail :: "collection \<Rightarrow> string \<Rightarrow> obj option" where
  "getUserByEmail users e = List.find (has_email (toLowerCase e)) users"

text \<open>
  \<open>createUser\<close> takes the two parts of the generated identifier (the clock reading
  and the random suffix) and the creation time as inputs; the clock readings for
  \<open>createdAt\<close> and \<open>updatedAt\<close> are taken to be one instant.
\<close>

definition newUser :: "string \<Rightarrow> string \<Rightarrow> string \<Rightarrow> userData \<Rightarrow> obj" where
  "newUser ts rnd now userData =
     [(''id'', JStr (''user_'' @ ts @ ''_'' @ rnd)),
      (''email'', JStr (toLowerCase (email userData))),
      (''password'', JStr (password userData)),
      (''firstName'', JStr (firstName userData)),
      (''lastName'', JStr (lastName userData)),
      (''preferences'', JObj (case preferences userData of
                                None \<Rightarrow> defaultPreferences | Some p \<Rightarrow> p)),
      (''createdAt'', JStr now),
      (''updatedAt'', JStr now)]"

definition createUser ::
  "string \<Rightarrow> string \<Rightarrow> string \<Rightarrow> collection \<Rightarrow> userData \<Rightarrow> (error + obj) \<times> collection" where
  "createUser ts rnd now users userData =
     (case getUserByEmail users (email userData) of
        Some existingUser \<Rightarrow>
          (Inl (ConflictError (''User with email '' @ email userData @ '' already exists'')),
           users)
      | None \<Rightarrow>
          (let user = newUser ts rnd now userData;
               users' = snd (appendToFile users user)
           in (Inr (AList.delete ''password'' user), users')))"





section \<open>The transaction service on the file store (services/TransactionService.js)\<close>

text \<open>
  JavaScript truthiness of a property value; an absent property is \<open>undefined\<close>.
  \<open>orElse v d\<close> is \<open>v || d\<close>, and \<open>field k v\<close> is the property \<open>k: v\<close> of an object
  literal, which the container file does not keep when \<open>v\<close> is \<open>undefined\<close>.
\<close>

fun truthy :: "jv option \<Rightarrow> bool" where
  "truthy None = False"
| "truthy (Some JNull) = False"
| "truthy (Some (JBool b)) = b"
| "truthy (Some (JNum r)) = (r \<noteq> 0)"
| "truthy (Some (JStr s)) = (s \<noteq> [])"
| "truthy (Some (JObj ps)) = True"

definition orElse :: "jv option \<Rightarrow> jv \<Rightarrow> jv" where
  "orElse v d = (case v of Some x \<Rightarrow> if truthy v then x else d | None \<Rightarrow> d)"

definition field :: "string \<Rightarrow> jv option \<Rightarrow> obj" where
  "field k v = (case v of Some x \<Rightarrow> [(k, x)] | None \<Rightarrow> [])"

text \<open>
  \<open>createTransaction\<close> takes the two parts of the generated identifier and the
  clock reading of the call as inputs; the readings for the default date, \<open>createdAt\<close>
  and \<open>updatedAt\<close> are taken to be one instant.
\<close>

definition newTransaction :: "string \<Rightarrow> string \<Rightarrow> string \<Rightarrow> obj \<Rightarrow> obj" where
  "newTransaction ts rnd now transactionData =
     [(''id'', JStr (''txn_'' @ ts @ ''_'' @ rnd))]
     @ field ''userId'' (map_of transactionData ''userId'')
     @ field ''type'' (map_of transactionData ''type'')
     @ field ''category'' (map_of transactionData ''category'')
     @ field ''amount'' (map_of transactionData ''amount'')
     @ [(''description'', orElse (map_of transactionData ''description'') (JStr [])),
        (''date'', orElse (map_of transactionData ''date'') (JStr now)),
        (''createdAt'', JStr now),
        (''updatedAt'', JStr now)]"

definition createTransaction ::
  "string \<Rightarrow> string \<Rightarrow> string \<Rightarrow> collection \<Rightarrow> obj \<Rightarrow> obj \<times> collection" where
  "createTransaction ts rnd now data transactionData =
     (let transaction = newTransaction ts rnd now transactionData
      in (transaction, snd (appendToFile data transaction)))"

definition getTransactionById :: "collection \<Rightarrow> string \<Rightarrow> error + obj" where
  "getTransactionById data i =
     (case findByIdInFile data i of
        None \<Rightarrow> Inl (NotFoundError ''Transaction'')
      | Some transaction \<Rightarrow> Inr transaction)"

definition updateTransaction ::
  "string \<Rightarrow> collection \<Rightarrow> string \<Rightarrow> obj \<Rightarrow> (error + obj) \<times> collection" where
  "updateTransaction now data i updateData =
     (case getTransactionById data i of
        Inl e \<Rightarrow> (Inl e, data)
      | Inr existing \<Rightarrow> updateInFile transactionsFile now data i updateData)"

text \<open>
  The amount checks of \<open>validateTransaction\<close> (middleware/validation.js), which
  \<open>POST /transactions\<close> runs on the request body before the create: the messages
  pushed to \<open>errors\<close> for the body's \<open>amount\<close>. A request with a non-empty
  \<open>errors\<close> is answered with status 400 and goes no further.
\<close>

definition amountErrors :: "jv option \<Rightarrow> string list" where
  "amountErrors amount =
     (if \<not> truthy amount then [''Amount is required'']
      else case amount of
             Some (JNum a) \<Rightarrow>
               if a \<le> 0 then [''Amount must be a positive number'']
               else if a > 1000000 then [''Amount exceeds maximum limit'']
               else []
           | _ \<Rightarrow> [''Amount must be a positive number''])"

section \<open>Pagination (middleware/validation.js) and the document store's find (utils/mongoDBService.js)\<close>

text \<open>
  \<open>validatePagination\<close> reads \<open>page\<close> and \<open>limit\<close> with \<open>parseInt\<close>; its inputs here are
  the numbers \<open>parseInt\<close> returns, \<open>None\<close> for \<open>NaN\<close>. \<open>n || d\<close> on such a number takes
  \<open>d\<close> for \<open>NaN\<close> and for \<open>0\<close>.
\<close>

record paging =
  skip :: nat
  limit :: nat




text \<open>
  The document store. A collection is the list of its documents; a filter is the
  predicate it denotes; a sort specification is a field with a direction, and \<open>rank\<close>
  gives the place of a document's value for a field in the database's order. The
  options \<open>select\<close> and \<open>populate\<close> keep their default \<open>null\<close>. \<open>conn\<close> is the outcome of
  \<open>ensureConnection\<close>: \<open>None\<close> when the connection stands, the error thrown otherwise.
  \<open>skip\<close> and \<open>limit\<close> are non-negative; the database reads a limit of 0 as no limit.
  \<open>Math.ceil(total / limit)\<close> is a number, \<open>Infinity\<close> or \<open>NaN\<close>.
\<close>

datatype number = Num int | PosInfinity | NotANumber

record findOptions =
  opt_skip :: "nat option"
  opt_limit :: "nat option"
  opt_sort :: "(string \<times> int) option"

record findResult = paging +
  data :: "obj list"
  total :: nat
  pages :: number

definition sortDocs :: "(string \<Rightarrow> obj \<Rightarrow> int) \<Rightarrow> string \<times> int \<Rightarrow> obj list \<Rightarrow> obj list" where
  "sortDocs rank srt docs =
     sort_key (\<lambda>d. if snd srt < 0 then - rank (fst srt) d else rank (fst srt) d) docs"

definition limitDocs :: "nat \<Rightarrow> obj list \<Rightarrow> obj list" where
  "limitDocs n docs = (if n = 0 then docs else take n docs)"

definition ceilDiv :: "nat \<Rightarrow> nat \<Rightarrow> number" where
  "ceilDiv t l =
     (if l = 0 then (if t = 0 then NotANumber else PosInfinity)
      else Num \<lceil>rat_of_nat t / rat_of_nat l\<rceil>)"

definition find ::
  "error option \<Rightarrow> (string \<Rightarrow> obj \<Rightarrow> int) \<Rightarrow> obj list \<Rightarrow> (obj \<Rightarrow> bool) \<Rightarrow> findOptions
     \<Rightarrow> error + findResult" where
  "find conn rank model query options =
     (case conn of
        Some e \<Rightarrow>
          Inl (DatabaseError ''Failed to find documents''
                 (DatabaseError ''Database connection failed'' e))
      | None \<Rightarrow>
          (let skip' = (case opt_skip options of None \<Rightarrow> 0 | Some s \<Rightarrow> s);
               limit' = (case opt_limit options of None \<Rightarrow> 10 | Some l \<Rightarrow> l);
               sort' = (case opt_sort options of None \<Rightarrow> (''createdAt'', - 1) | Some s \<Rightarrow> s);
               total' = length (filter query model);
               data' = limitDocs limit' (drop skip' (sortDocs rank sort' (filter query model)))
           in Inr \<lparr>skip = skip', limit = limit', data = data', total = total',
                   pages = ceilDiv total' limit'\<rparr>))"

section \<open>Summaries (services/TransactionService.js, services/TransactionServiceMongo.js)\<close>

text \<open>
  A stored transaction as the summaries read it: its owner, its type, its category,
  its amount, and the instant its date denotes, in milliseconds since the epoch.
\<close>

record transaction =
  userId :: string
  type :: string
  category :: string
  amount :: rat
  date :: int

subsection \<open>Calendar dates\<close>

text \<open>
  The local calendar of the language's \<open>Date\<close>, for a zone whose local time is \<open>tz\<close>
  milliseconds ahead of UTC (daylight saving is not modelled). \<open>days_from_civil\<close> is
  the number of days from 1970-01-01 to a day of the proleptic Gregorian calendar and
  \<open>civil_from_days\<close> its inverse; months count from 1 there, and from 0 in
  \<open>makeDate\<close> (\<open>new Date(year, monthIndex, day)\<close>, local midnight, for the years from
  100 on, which the constructor takes as they are) and in \<open>getMonth\<close>.
\<close>

definition msPerDay :: int where
  "msPerDay = 86400000"

definition days_from_civil :: "int \<Rightarrow> int \<Rightarrow> int \<Rightarrow> int" where
  "days_from_civil y m d =
     (let y' = (if m \<le> 2 then y - 1 else y);
          era = y' div 400;
          yoe = y' - era * 400;
          doy = (153 * (if m > 2 then m - 3 else m + 9) + 2) div 5 + d - 1;
          doe = yoe * 365 + yoe div 4 - yoe div 100 + doy
      in era * 146097 + doe - 719468)"

definition civil_from_days :: "int \<Rightarrow> int \<times> int \<times> int" where
  "civil_from_days z =
     (let z' = z + 719468;
          era = z' div 146097;
          doe = z' - era * 146097;
          yoe = (doe - doe div 1460 + doe div 36524 - doe div 146096) div 365;
          doy = doe - (365 * yoe + yoe div 4 - yoe div 100);
          mp = (5 * doy + 2) div 153;
          d = doy - (153 * mp + 2) div 5 + 1;
          m = (if mp < 10 then mp + 3 else mp - 9)
      in (if m \<le> 2 then yoe + era * 400 + 1 else yoe + era * 400, m, d))"

definition makeDate :: "int \<Rightarrow> int \<Rightarrow> int \<Rightarrow> int \<Rightarrow> int" where
  "makeDate tz year monthIndex day =
     (days_from_civil (year + monthIndex div 12) (monthIndex mod 12 + 1) 1 + day - 1) * msPerDay
       - tz"

definition getFullYear :: "int \<Rightarrow> int \<Rightarrow> int" where
  "getFullYear tz t = fst (civil_from_days ((t + tz) div msPerDay))"

definition getMonth :: "int \<Rightarrow> int \<Rightarrow> int" where
  "getMonth tz t = fst (snd (civil_from_days ((t + tz) div msPerDay))) - 1"

text \<open>
  The month argument \<open>YYYY-MM\<close> of a summary: its text, and the numbers \<open>parseInt\<close>
  reads from its two parts.
\<close>

record monthArg =
  monthText :: string
  yearNum :: int
  monthNum :: int

subsection \<open>The file-store summary\<close>

record filters =
  typeFilter :: "string option"
  categoryFilter :: "string option"
  startDate :: "int option"
  endDate :: "int option"

definition noFilters :: filters where
  "noFilters = \<lparr>typeFilter = None, categoryFilter = None, startDate = None, endDate = None\<rparr>"

definition applyFilter :: "'a option \<Rightarrow> ('a \<Rightarrow> transaction \<Rightarrow> bool) \<Rightarrow> transaction list \<Rightarrow> transaction list" where
  "applyFilter f P ts = (case f of None \<Rightarrow> ts | Some v \<Rightarrow> filter (P v) ts)"

definition getUserTransactions :: "transaction list \<Rightarrow> string \<Rightarrow> filters \<Rightarrow> transaction list" where
  "getUserTransactions stored uid fs =
     sort_key (\<lambda>t. - date t)
       (applyFilter (endDate fs) (\<lambda>e t. date t \<le> e)
         (applyFilter (startDate fs) (\<lambda>s t. date t \<ge> s)
           (applyFilter (categoryFilter fs) (\<lambda>c t. category t = c)
             (applyFilter (typeFilter fs) (\<lambda>k t. type t = k)
               (filter (\<lambda>t. userId t = uid) stored)))))"

text \<open>
  The loop of \<open>getSummary\<close> over the selected transactions, with its four
  accumulators, and the report built from them. \<open>toFixed2 x\<close> is
  \<open>parseFloat(x.toFixed(2))\<close>: the nearest multiple of 1/100, a tie going away from
  zero.
\<close>

record accum =
  incomeSum :: rat
  expenseSum :: rat
  incomeCats :: "(string \<times> rat) list"
  expenseCats :: "(string \<times> rat) list"

definition addTo :: "(string \<times> rat) list \<Rightarrow> string \<Rightarrow> rat \<Rightarrow> (string \<times> rat) list" where
  "addTo byCategory c a =
     AList.update c ((case map_of byCategory c of Some v \<Rightarrow> v | None \<Rightarrow> 0) + a) byCategory"

definition accumulate :: "accum \<Rightarrow> transaction \<Rightarrow> accum" where
  "accumulate s t =
     (if type t = ''income''
      then s\<lparr>incomeSum := incomeSum s + amount t,
             incomeCats := addTo (incomeCats s) (category t) (amount t)\<rparr>
      else s\<lparr>expenseSum := expenseSum s + amount t,
             expenseCats := addTo (expenseCats s) (category t) (amount t)\<rparr>)"

definition toFixed2 :: "rat \<Rightarrow> rat" where
  "toFixed2 x =
     (if x < 0 then - (rat_of_int \<lfloor>- x * 100 + 1 / 2\<rfloor> / 100)
      else rat_of_int \<lfloor>x * 100 + 1 / 2\<rfloor> / 100)"

record summaryTotals =
  totalIncome :: rat
  totalExpense :: rat
  netSavings :: rat
  savingsPercentage :: rat
  period :: string

record summary = summaryTotals +
  incomeByCategory :: "(string \<times> rat) list"
  expenseByCategory :: "(string \<times> rat) list"
  transactionCount :: nat

definition periodOf :: "monthArg option \<Rightarrow> string" where
  "periodOf month =
     (case month of None \<Rightarrow> ''all-time''
      | Some m \<Rightarrow> if monthText m = [] then ''all-time'' else monthText m)"

definition summarize :: "monthArg option \<Rightarrow> transaction list \<Rightarrow> summary" where
  "summarize month filtered =
     (let s = foldl accumulate
                \<lparr>incomeSum = 0, expenseSum = 0, incomeCats = [], expenseCats = []\<rparr> filtered;
          netSavings' = incomeSum s - expenseSum s;
          savingsPercentage' =
            (if incomeSum s > 0 then (netSavings' / incomeSum s) * 100 else 0)
      in \<lparr>totalIncome = incomeSum s, totalExpense = expenseSum s, netSavings = netSavings',
          savingsPercentage = toFixed2 savingsPercentage', period = periodOf month,
          incomeByCategory = incomeCats s, expenseByCategory = expenseCats s,
          transactionCount = length filtered\<rparr>)"

definition inMonth :: "int \<Rightarrow> monthArg \<Rightarrow> transaction \<Rightarrow> bool" where
  "inMonth tz m t \<longleftrightarrow>
     getFullYear tz (date t) = yearNum m \<and> getMonth tz (date t) = monthNum m - 1"

definition getSummary :: "int \<Rightarrow> transaction list \<Rightarrow> string \<Rightarrow> monthArg option \<Rightarrow> summary" where
  "getSummary tz stored uid month =
     (let transactions = getUserTransactions stored uid noFilters;
          filtered = (case month of
                        None \<Rightarrow> transactions
                      | Some m \<Rightarrow> if monthText m = [] then transactions
                                  else filter (inMonth tz m) transactions)
      in summarize month filtered)"

subsection \<open>The document-store summary\<close>

text \<open>
  The aggregation pipeline of the document-store \<open>getSummary\<close>: the owner's
  documents, those of them inside the month's window when a month is given, grouped by
  type with the amounts summed (the groups are listed in the order their types first
  occur). The owner id is a well-formed object id and the connection stands.
\<close>

definition monthWindow :: "int \<Rightarrow> monthArg \<Rightarrow> int \<times> int" where
  "monthWindow tz m =
     (makeDate tz (yearNum m) (monthNum m - 1) 1, makeDate tz (yearNum m) (monthNum m) 0)"

definition groupByType :: "transaction list \<Rightarrow> (string \<times> rat) list" where
  "groupByType docs = foldl (\<lambda>g t. addTo g (type t) (amount t)) [] docs"

definition getSummaryMongo ::
  "int \<Rightarrow> transaction list \<Rightarrow> string \<Rightarrow> monthArg option \<Rightarrow> summaryTotals" where
  "getSummaryMongo tz docs uid month =
     (let owned = filter (\<lambda>t. userId t = uid) docs;
          matched = (case month of
                       None \<Rightarrow> owned
                     | Some m \<Rightarrow>
                         if monthText m = [] then owned
                         else filter (\<lambda>t. fst (monthWindow tz m) \<le> date t
                                          \<and> date t \<le> snd (monthWindow tz m)) owned);
          results = groupByType matched;
          totals = foldl (\<lambda>(i, e) (k, tot). if k = ''income'' then (tot, e) else (i, tot))
                     (0, 0) results;
          netSavings' = fst totals - snd totals;
          savingsPercentage' =
            (if fst totals > 0 then (netSavings' / fst totals) * 100 else 0)
      in \<lparr>totalIncome = fst totals, totalExpense = snd totals, netSavings = netSavings',
          savingsPercentage = toFixed2 savingsPercentage', period = periodOf month\<rparr>)"

section \<open>The token service (services/JWTService.js)\<close>

text \<open>
  The service is written over the runtime's \<open>crypto\<close>, \<open>Buffer\<close> and \<open>JSON\<close>, which are
  parameters here:
  \<^item> \<open>hmacBase64 key text\<close> is
    \<open>crypto.createHmac('sha256', key).update(text).digest('base64')\<close>;
  \<^item> \<open>toBase64 s\<close> is \<open>Buffer.from(s).toString('base64')\<close> and \<open>fromBase64 s\<close> is
    \<open>Buffer.from(s, 'base64').toString()\<close>;
  \<^item> \<open>stringify\<close> is \<open>JSON.stringify\<close>, and \<open>parse\<close> is \<open>JSON.parse\<close>, \<open>Inl\<close> carrying the
    message of the \<open>SyntaxError\<close> it throws;
  \<^item> \<open>readOfNull\<close> is the message of the \<open>TypeError\<close> thrown on reading a property of
    \<open>null\<close>, and \<open>stringToNumber\<close> the conversion of a string to a number, \<open>None\<close> for
    \<open>NaN\<close>.
  The secret is \<open>config.security.jwtSecret\<close>. The clock is read in milliseconds;
  \<open>generateToken\<close> reads it twice, for \<open>iat\<close> and then for \<open>exp\<close>.
\<close>

record runtime =
  hmacBase64 :: "string \<Rightarrow> string \<Rightarrow> string"
  toBase64 :: "string \<Rightarrow> string"
  fromBase64 :: "string \<Rightarrow> string"
  stringify :: "jv \<Rightarrow> string"
  parse :: "string \<Rightarrow> string + jv"
  readOfNull :: string
  stringToNumber :: "string \<Rightarrow> rat option"

text \<open>\<open>splitOn c s\<close> is \<open>s.split(c)\<close> for a one-character separator.\<close>

fun splitOn :: "char \<Rightarrow> string \<Rightarrow> string list" where
  "splitOn c [] = [[]]"
| "splitOn c (x # xs) =
     (if x = c then [] # splitOn c xs
      else case splitOn c xs of p # ps \<Rightarrow> (x # p) # ps | [] \<Rightarrow> [[x]])"

text \<open>
  \<open>getProp v k\<close> is the property read \<open>v.k\<close> on a value other than \<open>null\<close>, and
  \<open>lessThanNumber v n\<close> the comparison \<open>v < n\<close> with a number on the right: the left
  side is converted to a number, and a comparison with \<open>NaN\<close> is false.
\<close>

definition getProp :: "jv \<Rightarrow> string \<Rightarrow> jv option" where
  "getProp v k = (case v of JObj ps \<Rightarrow> map_of ps k | _ \<Rightarrow> None)"

definition toNumber :: "runtime \<Rightarrow> jv option \<Rightarrow> rat option" where
  "toNumber rt v =
     (case v of
        None \<Rightarrow> None
      | Some JNull \<Rightarrow> Some 0
      | Some (JBool b) \<Rightarrow> Some (if b then 1 else 0)
      | Some (JNum r) \<Rightarrow> Some r
      | Some (JStr s) \<Rightarrow> stringToNumber rt s
      | Some (JObj ps) \<Rightarrow> None)"

definition lessThanNumber :: "runtime \<Rightarrow> jv option \<Rightarrow> rat \<Rightarrow> bool" where
  "lessThanNumber rt v n = (case toNumber rt v of None \<Rightarrow> False | Some x \<Rightarrow> x < n)"

definition tokenHeader :: jv where
  "tokenHeader = JObj [(''alg'', JStr ''HS256''), (''typ'', JStr ''JWT'')]"

definition tokenBody :: "int \<Rightarrow> int \<Rightarrow> obj \<Rightarrow> obj" where
  "tokenBody now1 now2 payload =
     AList.update ''exp'' (JNum (rat_of_int (now2 div 1000 + 7 * 24 * 60 * 60)))
       (AList.update ''iat'' (JNum (rat_of_int (now1 div 1000))) payload)"

definition generateToken :: "runtime \<Rightarrow> string \<Rightarrow> int \<Rightarrow> int \<Rightarrow> obj \<Rightarrow> string" where
  "generateToken rt secret now1 now2 payload =
     (let headerEncoded = toBase64 rt (stringify rt tokenHeader);
          bodyEncoded = toBase64 rt (stringify rt (JObj (tokenBody now1 now2 payload)));
          signature = hmacBase64 rt secret (headerEncoded @ ''.'' @ bodyEncoded)
      in headerEncoded @ ''.'' @ bodyEncoded @ ''.'' @ signature)"

definition verificationFailed :: "string \<Rightarrow> error" where
  "verificationFailed message = Error (''Token verification failed: '' @ message)"

definition verifyToken :: "runtime \<Rightarrow> string \<Rightarrow> int \<Rightarrow> string \<Rightarrow> error + jv" where
  "verifyToken rt secret now token =
     (case splitOn (CHR ''.'') token of
        [headerEncoded, bodyEncoded, signature] \<Rightarrow>
          (let expectedSignature = hmacBase64 rt secret (headerEncoded @ ''.'' @ bodyEncoded)
           in if signature \<noteq> expectedSignature
              then Inl (verificationFailed ''Invalid signature'')
              else case parse rt (fromBase64 rt bodyEncoded) of
                     Inl message \<Rightarrow> Inl (verificationFailed message)
                   | Inr JNull \<Rightarrow> Inl (verificationFailed (readOfNull rt))
                   | Inr body \<Rightarrow>
                       if lessThanNumber rt (getProp body ''exp'') (rat_of_int (now div 1000))
                       then Inl (verificationFailed ''Token expired'')
                       else Inr body)
      | _ \<Rightarrow> Inl (verificationFailed ''Invalid token format''))"

definition createSessionToken ::
  "runtime \<Rightarrow> string \<Rightarrow> int \<Rightarrow> int \<Rightarrow> string \<Rightarrow> string \<Rightarrow> string" where
  "createSessionToken rt secret now1 now2 uid mail =
     generateToken rt secret now1 now2
       [(''sub'', JStr uid), (''email'', JStr mail), (''type'', JStr ''session'')]"

section \<open>A reference runtime\<close>

text \<open>
  One runtime on which the token service can be evaluated. Strings are the byte
  sequences of their UTF-8 form. Base64 is the standard alphabet with \<open>=\<close> padding;
  the decoder reads groups of four characters. JSON is the text \<open>JSON.stringify\<close>
  writes for objects whose values are strings, non-negative integers, booleans and
  \<open>null\<close>, the strings free of quotes, backslashes and control characters; every
  other text is rejected with one message (the runtime itself words it by position).
  The digest is a keyed checksum of the text standing for HMAC-SHA256, whose value the
  service only ever compares with what the same function gives.
\<close>

definition b64alphabet :: string where
  "b64alphabet = ''ABCDEFGHIJKLMNOPQRSTUVWXYZabcdefghijklmnopqrstuvwxyz0123456789+/''"

definition b64char :: "nat \<Rightarrow> char" where
  "b64char n = b64alphabet ! (n mod 64)"

fun indexOf :: "'a \<Rightarrow> 'a list \<Rightarrow> nat" where
  "indexOf x [] = 0"
| "indexOf x (y # ys) = (if x = y then 0 else Suc (indexOf x ys))"

definition b64index :: "char \<Rightarrow> nat" where
  "b64index c = indexOf c b64alphabet"

fun encode64 :: "nat list \<Rightarrow> string" where
  "encode64 [] = []"
| "encode64 [a] = [b64char (a div 4), b64char (a mod 4 * 16), CHR ''='', CHR ''='']"
| "encode64 [a, b] =
     [b64char (a div 4), b64char (a mod 4 * 16 + b div 16), b64char (b mod 16 * 4), CHR ''='']"
| "encode64 (a # b # c # r) =
     [b64char (a div 4), b64char (a mod 4 * 16 + b div 16),
      b64char (b mod 16 * 4 + c div 64), b64char (c mod 64)] @ encode64 r"

fun decode64 :: "string \<Rightarrow> nat list" where
  "decode64 (w # x # y # z # r) =
     (if y = CHR ''='' then [b64index w * 4 + b64index x div 16]
      else if z = CHR ''=''
      then [b64index w * 4 + b64index x div 16, b64index x mod 16 * 16 + b64index y div 4]
      else [b64index w * 4 + b64index x div 16, b64index x mod 16 * 16 + b64index y div 4,
            b64index y mod 4 * 64 + b64index z] @ decode64 r)"
| "decode64 r = []"

definition bytesToBase64 :: "string \<Rightarrow> string" where
  "bytesToBase64 s = encode64 (map of_char s)"

definition base64ToBytes :: "string \<Rightarrow> string" where
  "base64ToBytes s = map char_of (decode64 s)"

definition mix :: "int \<Rightarrow> char \<Rightarrow> int" where
  "mix h c = (h * 31 + of_char c) mod 4294967296"

definition keyedDigest :: "string \<Rightarrow> string \<Rightarrow> string" where
  "keyedDigest k text =
     (let h = foldl mix 7 (k @ text @ k)
      in encode64 (map nat [h div 16777216, h div 65536 mod 256, h div 256 mod 256, h mod 256]))"

definition digits :: string where
  "digits = ''0123456789''"

fun showInt :: "nat \<Rightarrow> int \<Rightarrow> string" where
  "showInt 0 n = []"
| "showInt (Suc fuel) n =
     (if n < 10 then [digits ! nat n]
      else showInt fuel (n div 10) @ [digits ! nat (n mod 10)])"

definition readInt :: "string \<Rightarrow> int" where
  "readInt s = foldl (\<lambda>a c. a * 10 + int (indexOf c digits)) 0 s"

definition quote :: "string \<Rightarrow> string" where
  "quote s = CHR 0x22 # s @ [CHR 0x22]"

fun joinWith :: "char \<Rightarrow> string list \<Rightarrow> string" where
  "joinWith c [] = []"
| "joinWith c [s] = s"
| "joinWith c (s # t # ss) = s @ c # joinWith c (t # ss)"

fun writeScalar :: "jv \<Rightarrow> string" where
  "writeScalar JNull = ''null''"
| "writeScalar (JBool b) = (if b then ''true'' else ''false'')"
| "writeScalar (JNum r) = showInt 20 \<lfloor>r\<rfloor>"
| "writeScalar (JStr s) = quote s"
| "writeScalar (JObj ps) = ''{}''"

definition writeJson :: "jv \<Rightarrow> string" where
  "writeJson v =
     (case v of
        JObj ps \<Rightarrow> ''{'' @ joinWith (CHR '','') (map (\<lambda>(k, w). quote k @ '':'' @ writeScalar w) ps) @ ''}''
      | _ \<Rightarrow> writeScalar v)"

definition readString :: "string \<Rightarrow> (string \<times> string) option" where
  "readString s =
     (case s of
        c # r \<Rightarrow>
          (if c = CHR 0x22
           then (case dropWhile (\<lambda>x. x \<noteq> CHR 0x22) r of
                   q # rest \<Rightarrow> Some (takeWhile (\<lambda>x. x \<noteq> CHR 0x22) r, rest)
                 | [] \<Rightarrow> None)
           else None)
      | [] \<Rightarrow> None)"

definition readScalar :: "string \<Rightarrow> (jv \<times> string) option" where
  "readScalar s =
     (if take 4 s = ''null'' then Some (JNull, drop 4 s)
      else if take 4 s = ''true'' then Some (JBool True, drop 4 s)
      else if take 5 s = ''false'' then Some (JBool False, drop 5 s)
      else if takeWhile (\<lambda>c. c \<in> set digits) s \<noteq> []
      then Some (JNum (of_int (readInt (takeWhile (\<lambda>c. c \<in> set digits) s))),
                 dropWhile (\<lambda>c. c \<in> set digits) s)
      else map_option (\<lambda>(t, rest). (JStr t, rest)) (readString s))"

fun readMembers :: "nat \<Rightarrow> string \<Rightarrow> obj option" where
  "readMembers 0 s = None"
| "readMembers (Suc fuel) s =
     (case readString s of
        None \<Rightarrow> None
      | Some (k, r1) \<Rightarrow>
          (case r1 of
             [] \<Rightarrow> None
           | c # r2 \<Rightarrow>
               if c \<noteq> CHR '':'' then None
               else (case readScalar r2 of
                       None \<Rightarrow> None
                     | Some (v, r3) \<Rightarrow>
                         if r3 = ''}'' then Some [(k, v)]
                         else (case r3 of
                                 [] \<Rightarrow> None
                               | d # r4 \<Rightarrow>
                                   if d = CHR '',''
                                   then map_option ((#) (k, v)) (readMembers fuel r4)
                                   else None))))"

definition readJson :: "string \<Rightarrow> string + jv" where
  "readJson s =
     (if s = ''{}'' then Inr (JObj [])
      else if take 1 s = ''{''
      then (case readMembers (length s) (drop 1 s) of
              Some ps \<Rightarrow> Inr (JObj ps)
            | None \<Rightarrow> Inl ''Unexpected token in JSON'')
      else (case readScalar s of
              Some (v, []) \<Rightarrow> Inr v
            | _ \<Rightarrow> Inl ''Unexpected token in JSON''))"

definition reference :: runtime where
  "reference =
     \<lparr>hmacBase64 = keyedDigest, toBase64 = bytesToBase64, fromBase64 = base64ToBytes,
      stringify = writeJson, parse = readJson,
      readOfNull = ''Cannot read properties of null'',
      stringToNumber = (\<lambda>s. if s \<noteq> [] \<and> set s \<subseteq> set digits
                               then Some (of_int (readInt s)) else None)\<rparr>"
section \<open>Sample data of the test suite\<close>

definition sample_userData :: userData where
  "sample_userData =
     \<lparr>email = ''Test@Example.com'', password = ''password123'', firstName = ''John'',
      lastName = ''Doe'', preferences = None\<rparr>"

definition sample_user :: obj where
  "sample_user =
     [(''id'', JStr ''user_1709287200000_k3x9q2m1z''),
      (''email'', JStr ''test@example.com''),
      (''password'', JStr ''password123''),
      (''firstName'', JStr ''John''),
      (''lastName'', JStr ''Doe''),
      (''preferences'', JObj defaultPreferences),
      (''createdAt'', JStr ''2024-03-01T10:00:00.000Z''),
      (''updatedAt'', JStr ''2024-03-01T10:00:00.000Z'')]"

definition sample_transaction :: obj where
  "sample_transaction =
     [(''id'', JStr ''txn_1709287200000_a1b2c3d4e''),
      (''userId'', JStr ''user_1709287200000_k3x9q2m1z''),
      (''type'', JStr ''expense''),
      (''category'', JStr ''Food''),
      (''amount'', JNum 50),
      (''description'', JStr ''Lunch''),
      (''date'', JStr ''2024-03-01T10:00:00.000Z''),
      (''createdAt'', JStr ''2024-03-01T10:00:00.000Z''),
      (''updatedAt'', JStr ''2024-03-01T10:00:00.000Z'')]"




text \<open>
  January 2024, and an expense dated 2024-01-31 12:00:00 local time in the zone \<open>tz\<close>
  milliseconds ahead of UTC (at UTC, 1706702400000 milliseconds after the epoch).
\<close>

definition january :: monthArg where
  "january = \<lparr>monthText = ''2024-01'', yearNum = 2024, monthNum = 1\<rparr>"

definition last_day_expense :: "int \<Rightarrow> transaction" where
  "last_day_expense tz =
     \<lparr>userId = ''u1'', type = ''expense'', category = ''Food'', amount = 30,
      date = 1706702400000 - tz\<rparr>"

text \<open>
  The default secret of \<open>config.security\<close>, the claims of a session token as the test
  suite issues them, and an instant to issue them at (2024-03-01 10:00:00 UTC).
\<close>

definition defaultSecret :: string where
  "defaultSecret = ''your-super-secret-jwt-key-change-in-production''"

definition sample_claims :: obj where
  "sample_claims =
     [(''sub'', JStr ''user123''), (''email'', JStr ''test@example.com''),
      (''type'', JStr ''session'')]"

definition sample_issued :: int where
  "sample_issued = 1709287200000"

section \<open>Properties of the file store\<close>




section \<open>Updating a record of a collection\<close>




section \<open>The user service\<close>


lemma newUser_sample:
  "newUser ''1709287200000'' ''k3x9q2m1z'' ''2024-03-01T10:00:00.000Z'' sample_userData = sample_user"
  by (simp add: newUser_def sample_userData_def sample_user_def toLowerCase_def lower_char_def)

lemma createUser_sample:
  "createUser ''1709287200000'' ''k3x9q2m1z'' ''2024-03-01T10:00:00.000Z'' [] sample_userData
     = (Inr (AList.delete ''password'' sample_user), [sample_user])"
  by (simp add: createUser_def getUserByEmail_def appendToFile_def newUser_sample)




lemma createUser_stores_given_password:
  "createUser ts rnd now users userData = (Inr u, users') \<Longrightarrow>
     map_of (last users') ''password'' = Some (JStr (password userData))"
  by (auto simp: createUser_def appendToFile_def newUser_def Let_def split: option.splits)

text \<open>
  C4. \<open>createUser\<close> writes the password it is given into the stored record
  unchanged (the source marks the line \<open>TODO: Hash in production\<close>): for the sample
  data of the test suite the record persisted in the empty collection holds the raw
  password \<open>password123\<close>.
\<close>

theorem createUser_persists_raw_password:
  "snd (createUser ''1709287200000'' ''k3x9q2m1z'' ''2024-03-01T10:00:00.000Z'' []
          sample_userData) = [sample_user]
   \<and> map_of sample_user ''password'' = Some (JStr ''password123'')
   \<and> password sample_userData = ''password123''"
  by (simp add: createUser_sample) (simp add: sample_user_def sample_userData_def)







section \<open>The amount bounds of a transaction\<close>

lemma amountErrors_empty_iff:
  "amountErrors v = [] \<longleftrightarrow> (\<exists>a. v = Some (JNum a) \<and> 0 < a \<and> a \<le> 1000000)"
  by (cases v rule: truthy.cases) (auto simp: amountErrors_def)

lemma createTransaction_sample:
  "createTransaction ''1709287200000'' ''a1b2c3d4e'' ''2024-03-01T10:00:00.000Z'' []
     [(''userId'', JStr ''user_1709287200000_k3x9q2m1z''), (''type'', JStr ''expense''),
      (''category'', JStr ''Food''), (''amount'', JNum 50), (''description'', JStr ''Lunch'')]
   = (sample_transaction, [sample_transaction])"
  by (simp add: createTransaction_def newTransaction_def appendToFile_def field_def Let_def
        orElse_def sample_transaction_def)

text \<open>
  C6. The create route rejects an amount of \<open>-5\<close> and an amount of \<open>2000000\<close>, but
  \<open>updateTransaction\<close> checks nothing: on the collection holding the sample
  transaction (amount 50) an update with amount \<open>-5\<close> succeeds and the collection
  then holds the record with amount \<open>-5\<close>; an update with amount \<open>2000000\<close> is
  persisted in the same way.
\<close>

theorem updateTransaction_persists_invalid_amount:
  "amountErrors (Some (JNum (- 5))) = [''Amount must be a positive number'']
   \<and> amountErrors (Some (JNum 2000000)) = [''Amount exceeds maximum limit'']
   \<and> updateTransaction ''2024-03-02T08:30:00.000Z'' [sample_transaction]
        ''txn_1709287200000_a1b2c3d4e'' [(''amount'', JNum (- 5))]
     = (Inr (AList.update ''updatedAt'' (JStr ''2024-03-02T08:30:00.000Z'')
               (AList.update ''amount'' (JNum (- 5)) sample_transaction)),
        [AList.update ''updatedAt'' (JStr ''2024-03-02T08:30:00.000Z'')
           (AList.update ''amount'' (JNum (- 5)) sample_transaction)])
   \<and> map_of (hd (snd (updateTransaction ''2024-03-02T08:30:00.000Z'' [sample_transaction]
                         ''txn_1709287200000_a1b2c3d4e'' [(''amount'', JNum (- 5))])))
        ''amount'' = Some (JNum (- 5))
   \<and> map_of (hd (snd (updateTransaction ''2024-03-02T08:30:00.000Z'' [sample_transaction]
                         ''txn_1709287200000_a1b2c3d4e'' [(''amount'', JNum 2000000)])))
        ''amount'' = Some (JNum 2000000)"
  by (simp add: amountErrors_def updateTransaction_def getTransactionById_def
        findByIdInFile_def has_id_def updateInFile_def transactionsFile_def AList.merge_def
        Let_def sample_transaction_def)

section \<open>Pagination\<close>




section \<open>Summaries\<close>










section \<open>The month of a summary\<close>

lemma january_window:
  "monthWindow tz january = (1704067200000 - tz, 1706659200000 - tz)"
  by (simp add: monthWindow_def january_def makeDate_def days_from_civil_def msPerDay_def Let_def)

lemma last_day_civil:
  "civil_from_days (1706702400000 div msPerDay) = (2024, 1, 31)"
  by code_simp

text \<open>
  C9. In every zone, for January 2024 the document-store summary takes the window
  from 2024-01-01 00:00 to 2024-01-31 00:00 local time (\<open>new Date(year, month, 0)\<close> is
  midnight at the start of the month's last day), so an expense of 30 dated
  2024-01-31 12:00 local time is left out of its totals, while the file-store summary,
  which compares the year and the month of the date, counts it.
\<close>

theorem month_window_omits_last_day:
  "monthWindow tz january = (1704067200000 - tz, 1706659200000 - tz)
   \<and> civil_from_days ((date (last_day_expense tz) + tz) div msPerDay) = (2024, 1, 31)
   \<and> (date (last_day_expense tz) + tz) mod msPerDay = 12 * 3600000
   \<and> totalExpense (getSummaryMongo tz [last_day_expense tz] ''u1'' (Some january)) = 0
   \<and> totalExpense (getSummary tz [last_day_expense tz] ''u1'' (Some january)) = 30"
proof -
  have d: "date (last_day_expense tz) = 1706702400000 - tz"
    "userId (last_day_expense tz) = ''u1''"
    "type (last_day_expense tz) = ''expense''" "amount (last_day_expense tz) = 30"
    by (simp_all add: last_day_expense_def)
  have m: "monthText january = ''2024-01''" "yearNum january = 2024" "monthNum january = 1"
    by (simp_all add: january_def)
  have mongo:
    "totalExpense (getSummaryMongo tz [last_day_expense tz] ''u1'' (Some january)) = 0"
    by (simp add: getSummaryMongo_def january_window d m groupByType_def Let_def)
  have "inMonth tz january (last_day_expense tz)"
    using last_day_civil by (simp add: inMonth_def getFullYear_def getMonth_def d m)
  then have onfile:
    "totalExpense (getSummary tz [last_day_expense tz] ''u1'' (Some january)) = 30"
    by (simp add: getSummary_def getUserTransactions_def noFilters_def applyFilter_def
          summarize_def accumulate_def d m Let_def)
  from january_window last_day_civil mongo onfile show ?thesis
    by (simp add: d msPerDay_def)
qed
section \<open>Tokens\<close>

lemma splitOn_not_Nil: "splitOn c s \<noteq> []"
  by (induction s) (auto split: list.splits)

lemma splitOn_no_separator: "c \<notin> set s \<Longrightarrow> splitOn c s = [s]"
  by (induction s) auto

lemma splitOn_first: "c \<notin> set a \<Longrightarrow> splitOn c (a @ c # r) = a # splitOn c r"
  by (induction a) auto

lemma splitOn_three:
  assumes "c \<notin> set a" and "c \<notin> set b" and "c \<notin> set d"
  shows "splitOn c (a @ [c] @ b @ [c] @ d) = [a, b, d]"
  using assms by (simp add: splitOn_first splitOn_no_separator)

lemma verifyToken_three:
  assumes "splitOn (CHR ''.'') token = [h, b, s]"
  shows "verifyToken rt secret now token =
     (if s \<noteq> hmacBase64 rt secret (h @ ''.'' @ b)
      then Inl (verificationFailed ''Invalid signature'')
      else case parse rt (fromBase64 rt b) of
             Inl message \<Rightarrow> Inl (verificationFailed message)
           | Inr JNull \<Rightarrow> Inl (verificationFailed (readOfNull rt))
           | Inr body \<Rightarrow>
               if lessThanNumber rt (getProp body ''exp'') (rat_of_int (now div 1000))
               then Inl (verificationFailed ''Token expired'')
               else Inr body)"
  using assms by (simp add: verifyToken_def Let_def)


lemma lifetime_not_expired:
  fixes issued later checked :: int
  assumes "issued \<le> later" and "checked < issued + 7 * 24 * 60 * 60 * 1000"
  shows "\<not> rat_of_int (later div 1000 + 7 * 24 * 60 * 60) < rat_of_int (checked div 1000)"
proof -
  from assms have "checked div 1000 \<le> later div 1000 + 7 * 24 * 60 * 60"
    by linarith
  then show ?thesis
    by (simp only: of_int_less_iff not_less)
qed

text \<open>
  C2. On a runtime whose base64 text and digests contain no dot, whose base64 decoding
  inverts its encoding and whose JSON parsing gives back the token body it serialised,
  verifying a token generated from claims with a \<open>sub\<close>, an \<open>email\<close> and a \<open>type\<close>, less
  than seven days (in milliseconds of the clock) after it was generated, succeeds and
  returns a body with the same \<open>sub\<close>, \<open>email\<close> and \<open>type\<close>. The clock does not go
  back between the two readings of \<open>generateToken\<close>.
\<close>

theorem verify_generated_token:
  assumes nodot: "\<forall>s. CHR ''.'' \<notin> set (toBase64 rt s)"
    and digest: "\<forall>k m. CHR ''.'' \<notin> set (hmacBase64 rt k m)"
    and base64: "\<forall>s. fromBase64 rt (toBase64 rt s) = s"
    and json: "parse rt (stringify rt (JObj (tokenBody issued later payload)))
                 = Inr (JObj (tokenBody issued later payload))"
    and claims: "map_of payload ''sub'' = Some subject" "map_of payload ''email'' = Some mail"
      "map_of payload ''type'' = Some kind"
    and clock: "issued \<le> later"
    and fresh: "checked < issued + 7 * 24 * 60 * 60 * 1000"
  shows "verifyToken rt secret checked (generateToken rt secret issued later payload)
           = Inr (JObj (tokenBody issued later payload))
         \<and> map_of (tokenBody issued later payload) ''sub'' = Some subject
         \<and> map_of (tokenBody issued later payload) ''email'' = Some mail
         \<and> map_of (tokenBody issued later payload) ''type'' = Some kind"
proof -
  let ?h = "toBase64 rt (stringify rt tokenHeader)"
  let ?b = "toBase64 rt (stringify rt (JObj (tokenBody issued later payload)))"
  let ?s = "hmacBase64 rt secret (?h @ ''.'' @ ?b)"
  have token: "generateToken rt secret issued later payload = ?h @ [CHR ''.''] @ ?b @ [CHR ''.''] @ ?s"
    by (simp add: generateToken_def Let_def)
  have parts: "splitOn (CHR ''.'') (generateToken rt secret issued later payload) = [?h, ?b, ?s]"
    unfolding token using nodot digest by (intro splitOn_three) simp_all
  have exp: "getProp (JObj (tokenBody issued later payload)) ''exp''
               = Some (JNum (rat_of_int (later div 1000 + 7 * 24 * 60 * 60)))"
    by (simp add: getProp_def tokenBody_def update_conv')
  have alive: "\<not> lessThanNumber rt (getProp (JObj (tokenBody issued later payload)) ''exp'')
                   (rat_of_int (checked div 1000))"
    unfolding exp using lifetime_not_expired [OF clock fresh]
    by (simp add: lessThanNumber_def toNumber_def)
  have "verifyToken rt secret checked (generateToken rt secret issued later payload)
          = Inr (JObj (tokenBody issued later payload))"
    using alive by (simp add: verifyToken_three [OF parts] base64 json)
  moreover have "map_of (tokenBody issued later payload) ''sub'' = Some subject"
    "map_of (tokenBody issued later payload) ''email'' = Some mail"
    "map_of (tokenBody issued later payload) ''type'' = Some kind"
    using claims by (simp_all add: tokenBody_def update_conv')
  ultimately show ?thesis
    by simp
qed

section \<open>The reference runtime\<close>

lemma b64alphabet_length: "length b64alphabet = 64"
  by (simp add: b64alphabet_def)

lemma b64alphabet_distinct: "distinct b64alphabet"
  by (simp add: b64alphabet_def)

lemma b64alphabet_plain: "CHR ''.'' \<notin> set b64alphabet" "CHR ''='' \<notin> set b64alphabet"
  by (simp_all add: b64alphabet_def)

lemma b64char_mem: "b64char n \<in> set b64alphabet"
  by (simp add: b64char_def b64alphabet_length)

lemma b64char_plain:
  "b64char n \<noteq> CHR ''.''" "b64char n \<noteq> CHR ''=''"
  "CHR ''.'' \<noteq> b64char n" "CHR ''='' \<noteq> b64char n"
  using b64char_mem [of n] b64alphabet_plain by metis+

lemma indexOf_nth: "distinct xs \<Longrightarrow> n < length xs \<Longrightarrow> indexOf (xs ! n) xs = n"
proof (induction xs arbitrary: n)
  case Nil
  then show ?case by simp
next
  case (Cons x xs)
  then show ?case
    by (cases n) auto
qed

lemma b64index_b64char: "n < 64 \<Longrightarrow> b64index (b64char n) = n"
  by (simp add: b64index_def b64char_def indexOf_nth b64alphabet_distinct b64alphabet_length)

lemma encode64_no_dot: "CHR ''.'' \<notin> set (encode64 bs)"
  by (induction bs rule: encode64.induct) (simp_all add: b64char_plain)

lemma div_add_small: "y < n \<Longrightarrow> (x * n + y) div n = (x::nat)"
  by simp

lemma mod_add_small: "y < n \<Longrightarrow> (x * n + y) mod n = (y::nat)"
  by simp

lemma octets:
  fixes a b c :: nat
  assumes "a < 256" "b < 256" "c < 256"
  shows "a div 4 * 4 + a mod 4 * 16 div 16 = a"
    "a div 4 * 4 + (a mod 4 * 16 + b div 16) div 16 = a"
    "(a mod 4 * 16 + b div 16) mod 16 * 16 + b mod 16 * 4 div 4 = b"
    "(a mod 4 * 16 + b div 16) mod 16 * 16 + (b mod 16 * 4 + c div 64) div 4 = b"
    "(b mod 16 * 4 + c div 64) mod 4 * 64 + c mod 64 = c"
proof -
  from assms have hi: "b div 16 < 16" "c div 64 < 4"
    by (simp_all add: less_mult_imp_div_less)
  show "a div 4 * 4 + a mod 4 * 16 div 16 = a"
    by simp
  show "a div 4 * 4 + (a mod 4 * 16 + b div 16) div 16 = a"
    by (simp add: div_add_small [OF hi(1)])
  show "(a mod 4 * 16 + b div 16) mod 16 * 16 + b mod 16 * 4 div 4 = b"
    using hi by simp
  show "(a mod 4 * 16 + b div 16) mod 16 * 16 + (b mod 16 * 4 + c div 64) div 4 = b"
    using hi by (simp add: div_add_small [OF hi(2)])
  show "(b mod 16 * 4 + c div 64) mod 4 * 64 + c mod 64 = c"
    using hi by simp
qed

lemma sextets:
  fixes a b c :: nat
  assumes "a < 256" "b < 256" "c < 256"
  shows "a div 4 < 64" "a mod 4 * 16 < 64" "a mod 4 * 16 + b div 16 < 64"
    "b mod 16 * 4 < 64" "b mod 16 * 4 + c div 64 < 64" "c mod 64 < 64"
proof -
  from assms have hi: "a div 4 < 64" "b div 16 < 16" "c div 64 < 4"
    by (simp_all add: less_mult_imp_div_less)
  have lo: "a mod 4 < 4" "b mod 16 < 16"
    by simp_all
  show "a div 4 < 64" by (rule hi(1))
  show "a mod 4 * 16 < 64" using lo(1) by linarith
  show "a mod 4 * 16 + b div 16 < 64" using lo(1) hi(2) by linarith
  show "b mod 16 * 4 < 64" using lo(2) by linarith
  show "b mod 16 * 4 + c div 64 < 64" using lo(2) hi(3) by linarith
  show "c mod 64 < 64" by simp
qed

lemma decode64_encode64: "\<forall>b \<in> set bs. b < 256 \<Longrightarrow> decode64 (encode64 bs) = bs"
proof (induction bs rule: encode64.induct)
  case 1
  then show ?case by simp
next
  case (2 a)
  then have a: "a < 256" by simp
  show ?case
    using sextets(1,2) [OF a a a] octets(1) [OF a a a]
    by (simp add: b64index_b64char)
next
  case (3 a b)
  then have a: "a < 256" and b: "b < 256" by simp_all
  show ?case
    using sextets(1,3,4) [OF a b b] octets(2,3) [OF a b b]
    by (simp add: b64index_b64char b64char_plain)
next
  case (4 a b c r)
  then have a: "a < 256" and b: "b < 256" and c: "c < 256" and r: "\<forall>x \<in> set r. x < 256"
    by simp_all
  show ?case
    using sextets(1,3,5,6) [OF a b c] octets(2,4,5) [OF a b c] "4.IH" [OF r]
    by (simp add: b64index_b64char b64char_plain)
qed

lemma reference_no_dot: "\<forall>s. CHR ''.'' \<notin> set (toBase64 reference s)"
  by (simp add: reference_def bytesToBase64_def encode64_no_dot)

lemma reference_digest_no_dot: "\<forall>k m. CHR ''.'' \<notin> set (hmacBase64 reference k m)"
proof (intro allI)
  fix k m
  have "hmacBase64 reference k m = keyedDigest k m"
    by (simp add: reference_def)
  then show "CHR ''.'' \<notin> set (hmacBase64 reference k m)"
    unfolding keyedDigest_def Let_def by (simp only: encode64_no_dot not_False_eq_True)
qed

lemma reference_base64: "\<forall>s. fromBase64 reference (toBase64 reference s) = s"
proof
  fix s :: string
  have "\<forall>b \<in> set (map of_char s :: nat list). b < 256"
    by simp
  then have "decode64 (encode64 (map of_char s)) = map of_char s"
    by (rule decode64_encode64)
  then show "fromBase64 reference (toBase64 reference s) = s"
    by (simp add: reference_def bytesToBase64_def base64ToBytes_def comp_def)
qed
section \<open>The token service on the reference runtime\<close>

lemma sample_token:
  "generateToken reference defaultSecret sample_issued sample_issued sample_claims =
     ''eyJhbGciOiJIUzI1NiIsInR5cCI6IkpXVCJ9.eyJzdWIiOiJ1c2VyMTIzIiwiZW1haWwiOiJ0ZXN0QGV4YW1wbGUuY29tIiwidHlwZSI6InNlc3Npb24iLCJpYXQiOjE3MDkyODcyMDAsImV4cCI6MTcwOTg5MjAwMH0=.s079lA==''"
  by code_simp

lemma sample_body:
  "tokenBody sample_issued sample_issued sample_claims =
     [(''sub'', JStr ''user123''), (''email'', JStr ''test@example.com''),
      (''type'', JStr ''session''), (''iat'', JNum 1709287200), (''exp'', JNum 1709892000)]"
  by (simp add: tokenBody_def sample_issued_def sample_claims_def)

lemma sample_json:
  "parse reference (stringify reference (JObj (tokenBody sample_issued sample_issued sample_claims)))
     = Inr (JObj (tokenBody sample_issued sample_issued sample_claims))"
  by code_simp

theorem verify_generated_token_witness:
  "parse reference (stringify reference (JObj (tokenBody sample_issued sample_issued sample_claims)))
     = Inr (JObj (tokenBody sample_issued sample_issued sample_claims))
   \<and> map_of sample_claims ''sub'' = Some (JStr ''user123'')
   \<and> map_of sample_claims ''email'' = Some (JStr ''test@example.com'')
   \<and> map_of sample_claims ''type'' = Some (JStr ''session'')
   \<and> sample_issued + 3 * 24 * 60 * 60 * 1000 < sample_issued + 7 * 24 * 60 * 60 * 1000
   \<and> verifyToken reference defaultSecret (sample_issued + 3 * 24 * 60 * 60 * 1000)
        ''eyJhbGciOiJIUzI1NiIsInR5cCI6IkpXVCJ9.eyJzdWIiOiJ1c2VyMTIzIiwiZW1haWwiOiJ0ZXN0QGV4YW1wbGUuY29tIiwidHlwZSI6InNlc3Npb24iLCJpYXQiOjE3MDkyODcyMDAsImV4cCI6MTcwOTg5MjAwMH0=.s079lA==''
       = Inr (JObj [(''sub'', JStr ''user123''), (''email'', JStr ''test@example.com''),
                    (''type'', JStr ''session''), (''iat'', JNum 1709287200),
                    (''exp'', JNum 1709892000)])"
proof -
  have claims: "map_of sample_claims ''sub'' = Some (JStr ''user123'')"
    "map_of sample_claims ''email'' = Some (JStr ''test@example.com'')"
    "map_of sample_claims ''type'' = Some (JStr ''session'')"
    by (simp_all add: sample_claims_def)
  have fresh: "sample_issued + 3 * 24 * 60 * 60 * 1000 < sample_issued + 7 * 24 * 60 * 60 * 1000"
    by simp
  have clock: "sample_issued \<le> sample_issued"
    by simp
  note T = verify_generated_token
             [OF reference_no_dot reference_digest_no_dot reference_base64 sample_json claims
                 clock fresh, of defaultSecret]
  from T have "verifyToken reference defaultSecret (sample_issued + 3 * 24 * 60 * 60 * 1000)
                 (generateToken reference defaultSecret sample_issued sample_issued sample_claims)
               = Inr (JObj (tokenBody sample_issued sample_issued sample_claims))"
    by (rule conjunct1)
  then have "verifyToken reference defaultSecret (sample_issued + 3 * 24 * 60 * 60 * 1000)
        ''eyJhbGciOiJIUzI1NiIsInR5cCI6IkpXVCJ9.eyJzdWIiOiJ1c2VyMTIzIiwiZW1haWwiOiJ0ZXN0QGV4YW1wbGUuY29tIiwidHlwZSI6InNlc3Npb24iLCJpYXQiOjE3MDkyODcyMDAsImV4cCI6MTcwOTg5MjAwMH0=.s079lA==''
       = Inr (JObj [(''sub'', JStr ''user123''), (''email'', JStr ''test@example.com''),
                    (''type'', JStr ''session''), (''iat'', JNum 1709287200),
                    (''exp'', JNum 1709892000)])"
    by (simp only: sample_token sample_body)
  with sample_json claims fresh show ?thesis
    by (simp only: simp_thms)
qed


end
